theory Spec2Isabelle
  imports Main "HOL-Library.AList"
begin

section \<open>Data model (src/src/shared/types.ts)\<close>

text \<open>
  \<^verbatim>\<open>BundleStatus = 'pending' | 'downloading' | 'success' | 'error'\<close>.
\<close>

datatype BundleStatus = Pending | Downloading | Success | Error

text \<open>
  \<^verbatim>\<open>interface BundleInfo { id; version; downloaded; checksum; status }\<close>.
  The field \<^verbatim>\<open>id\<close> is written \<open>bid\<close>, since \<open>id\<close> is HOL's identity function.
\<close>

record BundleInfo =
  bid :: string
  version :: string
  downloaded :: string
  checksum :: string
  status :: BundleStatus

text \<open>
  \<^verbatim>\<open>interface UpdateFailedEvent { bundle }\<close>; the field is written \<open>failed_bundle\<close>
  (\<open>bundle\<close> is a keyword of Isabelle). In \<open>DelayCondition\<close> the optional field
  \<^verbatim>\<open>value\<close> is written \<open>cvalue\<close> for the same reason.
\<close>

record UpdateFailedEvent =
  failed_bundle :: BundleInfo

datatype DelayConditionKind = background | kill | date | nativeVersion

record DelayCondition =
  kind :: DelayConditionKind
  cvalue :: "string option"

text \<open>
  \<^verbatim>\<open>bundles: Record<string, BundleInfo>\<close> is a JavaScript object used as a dictionary:
  an association list here, read with \<open>map_of\<close>, written with \<open>AList.update\<close> (an
  existing key keeps its place, a new key goes last) and \<open>AList.delete\<close>.
  Bundle ids are taken not to be names of \<^verbatim>\<open>Object.prototype\<close> members.
\<close>

record BundleManifest =
  bundles :: "(string \<times> BundleInfo) list"
  currentBundleId :: string
  nextBundleId :: "string option"
  lastSuccessfulBundleId :: "string option"
  failedUpdate :: "UpdateFailedEvent option"
  delayConditions :: "DelayCondition list"
  customId :: "string option"
  channel :: "string option"

record StorageData =
  deviceId :: string
  manifest :: BundleManifest
  updateUrl :: "string option"
  statsUrl :: "string option"
  channelUrl :: "string option"
  appId :: "string option"

text \<open>
  The constants module is not among the sources; its test (src/unnamed/part\_004) fixes
  \<^verbatim>\<open>expect(BUILTIN_BUNDLE_ID).toBe('builtin')\<close>.
\<close>

definition BUILTIN_BUNDLE_ID :: string where
  "BUILTIN_BUNDLE_ID = ''builtin''"


section \<open>Errors and asynchronous results\<close>

text \<open>
  Every \<^verbatim>\<open>throw new Error(...)\<close> of the bundle manager is one constructor; \<open>WriteFailed\<close>
  is the rejection of \<^verbatim>\<open>fs.promises.writeFile\<close> inside \<^verbatim>\<open>StorageManager.save\<close>;
  \<open>DecryptFailed\<close> is an exception of \<^verbatim>\<open>crypto.publicDecrypt\<close>.
\<close>

datatype err =
    BundleNotFound string
  | BundleNotReady string BundleStatus
  | IntegrityCheckFailed string
  | CannotDeleteBuiltin
  | CannotDeleteCurrent
  | CannotDeleteNext
  | ManualErrorNotAllowed
  | WriteFailed
  | DecryptFailed


section \<open>Storage manager (src/unnamed/part\_003)\<close>

text \<open>
  The state of a \<^verbatim>\<open>StorageManager\<close> together with the part of the file system it
  touches:
  \<^item> \<open>data\<close>: the field \<^verbatim>\<open>this.data\<close> (\<open>None\<close> before \<^verbatim>\<open>initialize()\<close>);
  \<^item> \<open>saved\<close>: the document last written to the storage file (the at-rest encoding
    of the device id is left out: it is undone on load);
  \<^item> \<open>dirs\<close>: the bundle ids that have a directory under the bundles path;
  \<^item> \<open>writes\<close>: the outcomes of the coming \<^verbatim>\<open>writeFile\<close> calls, in order
    (\<open>True\<close>: the write succeeds); once the list is used up, writes succeed;
  \<^item> \<open>locked\<close>: the bundle ids whose directory \<^verbatim>\<open>fs.promises.rm\<close> fails to remove.
\<close>

record Storage =
  data :: "StorageData option"
  saved :: "StorageData option"
  dirs :: "string list"
  writes :: "bool list"
  locked :: "string list"

definition createDefaultManifest :: BundleManifest where
  "createDefaultManifest =
     \<lparr>bundles = [], currentBundleId = BUILTIN_BUNDLE_ID, nextBundleId = None,
      lastSuccessfulBundleId = None, failedUpdate = None, delayConditions = [],
      customId = None, channel = None\<rparr>"

text \<open>Every setter is guarded by \<^verbatim>\<open>if (this.data)\<close>.\<close>

definition update_manifest :: "(BundleManifest \<Rightarrow> BundleManifest) \<Rightarrow> Storage \<Rightarrow> Storage" where
  "update_manifest f s =
     (case data s of
        None \<Rightarrow> s
      | Some d \<Rightarrow> s\<lparr>data := Some (d\<lparr>manifest := f (manifest d)\<rparr>)\<rparr>)"

definition getManifest :: "Storage \<Rightarrow> BundleManifest" where
  "getManifest s = (case data s of None \<Rightarrow> createDefaultManifest | Some d \<Rightarrow> manifest d)"

definition next_write_ok :: "Storage \<Rightarrow> bool" where
  "next_write_ok s = (case writes s of [] \<Rightarrow> True | ok # _ \<Rightarrow> ok)"

definition save :: "Storage \<Rightarrow> (err + unit) \<times> Storage" where
  "save s =
     (case data s of
        None \<Rightarrow> (Inr (), s)
      | Some d \<Rightarrow>
          if next_write_ok s
          then (Inr (), s\<lparr>saved := Some d, writes := drop 1 (writes s)\<rparr>)
          else (Inl WriteFailed, s\<lparr>writes := drop 1 (writes s)\<rparr>))"

definition getBundle :: "Storage \<Rightarrow> string \<Rightarrow> BundleInfo option" where
  "getBundle s bundleId =
     (case data s of None \<Rightarrow> None | Some d \<Rightarrow> map_of (bundles (manifest d)) bundleId)"

definition setBundle :: "string \<Rightarrow> BundleInfo \<Rightarrow> Storage \<Rightarrow> Storage" where
  "setBundle bundleId b =
     update_manifest (\<lambda>m. m\<lparr>bundles := AList.update bundleId b (bundles m)\<rparr>)"

definition storage_deleteBundle :: "string \<Rightarrow> Storage \<Rightarrow> Storage" where
  "storage_deleteBundle bundleId =
     update_manifest (\<lambda>m. m\<lparr>bundles := AList.delete bundleId (bundles m)\<rparr>)"

definition getAllBundles :: "Storage \<Rightarrow> BundleInfo list" where
  "getAllBundles s = (case data s of None \<Rightarrow> [] | Some d \<Rightarrow> map snd (bundles (manifest d)))"

definition getCurrentBundleId :: "Storage \<Rightarrow> string" where
  "getCurrentBundleId s =
     (case data s of None \<Rightarrow> BUILTIN_BUNDLE_ID | Some d \<Rightarrow> currentBundleId (manifest d))"

definition setCurrentBundleId :: "string \<Rightarrow> Storage \<Rightarrow> Storage" where
  "setCurrentBundleId bundleId = update_manifest (\<lambda>m. m\<lparr>currentBundleId := bundleId\<rparr>)"

definition getNextBundleId :: "Storage \<Rightarrow> string option" where
  "getNextBundleId s = (case data s of None \<Rightarrow> None | Some d \<Rightarrow> nextBundleId (manifest d))"

definition setNextBundleId :: "string option \<Rightarrow> Storage \<Rightarrow> Storage" where
  "setNextBundleId bundleId = update_manifest (\<lambda>m. m\<lparr>nextBundleId := bundleId\<rparr>)"

definition getLastSuccessfulBundleId :: "Storage \<Rightarrow> string option" where
  "getLastSuccessfulBundleId s =
     (case data s of None \<Rightarrow> None | Some d \<Rightarrow> lastSuccessfulBundleId (manifest d))"

definition setLastSuccessfulBundleId :: "string option \<Rightarrow> Storage \<Rightarrow> Storage" where
  "setLastSuccessfulBundleId bundleId =
     update_manifest (\<lambda>m. m\<lparr>lastSuccessfulBundleId := bundleId\<rparr>)"

definition storage_getFailedUpdate :: "Storage \<Rightarrow> UpdateFailedEvent option" where
  "storage_getFailedUpdate s =
     (case data s of None \<Rightarrow> None | Some d \<Rightarrow> failedUpdate (manifest d))"

definition setFailedUpdate :: "UpdateFailedEvent option \<Rightarrow> Storage \<Rightarrow> Storage" where
  "setFailedUpdate u = update_manifest (\<lambda>m. m\<lparr>failedUpdate := u\<rparr>)"

definition clearFailedUpdate :: "Storage \<Rightarrow> UpdateFailedEvent option \<times> Storage" where
  "clearFailedUpdate s =
     (let failed = storage_getFailedUpdate s in (failed, setFailedUpdate None s))"

definition bundleExists :: "Storage \<Rightarrow> string \<Rightarrow> bool" where
  "bundleExists s bundleId = (bundleId \<in> set (dirs s))"

text \<open>
  \<^verbatim>\<open>deleteBundleFiles\<close> wraps \<^verbatim>\<open>fs.promises.rm\<close> in \<^verbatim>\<open>try/catch\<close> and only logs:
  it returns normally whether or not the directory was removed.
\<close>

definition deleteBundleFiles :: "string \<Rightarrow> Storage \<Rightarrow> Storage" where
  "deleteBundleFiles bundleId s =
     (if bundleId \<in> set (locked s) then s
      else s\<lparr>dirs := removeAll bundleId (dirs s)\<rparr>)"


section \<open>Bundle manager (src/unnamed/part\_001)\<close>

text \<open>
  The constructor's fields. \<^verbatim>\<open>DownloadManager.verifyBundleIntegrity\<close> is not among the
  sources: it is a parameter here, a verdict that may depend on the state it is asked in.
\<close>

record BundleManager =
  builtinVersion :: string
  builtinPath :: string
  autoDeleteFailed :: bool
  autoDeletePrevious :: bool
  verifyBundleIntegrity :: "Storage \<Rightarrow> string \<Rightarrow> bool"

text \<open>\<^verbatim>\<open>CurrentBundleResult { bundle; native }\<close>, the bundle written \<open>cur_bundle\<close>.\<close>

record CurrentBundleResult =
  cur_bundle :: BundleInfo
  native :: string

record ApplyResult =
  applied :: bool
  bundleId :: string

text \<open>
  An operation is a function from the state to a result and the state it leaves: the
  operations are taken one at a time, each running to its end before the next starts.
  \<open>await r k\<close> is \<^verbatim>\<open>await\<close> of a promise outside any \<^verbatim>\<open>try\<close>: a rejection ends the
  caller with the state as it is at that point; \<open>swallow\<close> is \<^verbatim>\<open>.catch(() => {})\<close>.
\<close>

definition await ::
  "(err + 'a) \<times> Storage \<Rightarrow> ('a \<Rightarrow> Storage \<Rightarrow> (err + 'b) \<times> Storage) \<Rightarrow> (err + 'b) \<times> Storage" where
  "await r k = (case r of (Inl e, s) \<Rightarrow> (Inl e, s) | (Inr x, s) \<Rightarrow> k x s)"

definition swallow :: "(err + 'a) \<times> Storage \<Rightarrow> Storage" where
  "swallow r = snd r"

definition getBuiltinBundle :: "BundleManager \<Rightarrow> BundleInfo" where
  "getBuiltinBundle bm =
     \<lparr>bid = BUILTIN_BUNDLE_ID, version = builtinVersion bm, downloaded = [],
      checksum = [], status = Success\<rparr>"

definition current :: "BundleManager \<Rightarrow> Storage \<Rightarrow> CurrentBundleResult" where
  "current bm s =
     (let currentId = getCurrentBundleId s;
          b = (if currentId = BUILTIN_BUNDLE_ID then getBuiltinBundle bm
               else (case getBundle s currentId of
                       None \<Rightarrow> getBuiltinBundle bm
                     | Some b \<Rightarrow> b))
      in \<lparr>cur_bundle = b, native = builtinVersion bm\<rparr>)"

text \<open>
  \<^verbatim>\<open>list(options)\<close>, with \<open>raw\<close> for \<^verbatim>\<open>options?.raw\<close>. The methods \<^verbatim>\<open>list\<close> and
  \<^verbatim>\<open>set\<close> are written \<open>list_bundles\<close> and \<open>set_bundle\<close>: \<open>list\<close> and \<open>set\<close> are the
  list type and the set of a list in HOL. The argument \<^verbatim>\<open>options: BundleId\<close> of the
  operations is its one field, the id.
\<close>

definition list_bundles :: "BundleManager \<Rightarrow> bool \<Rightarrow> Storage \<Rightarrow> BundleInfo list" where
  "list_bundles bm raw s =
     (let storedBundles = getAllBundles s
      in getBuiltinBundle bm #
         (if raw then storedBundles
          else filter (\<lambda>b. bundleExists s (bid b)) storedBundles))"

definition "next" :: "BundleManager \<Rightarrow> string \<Rightarrow> Storage \<Rightarrow> (err + BundleInfo) \<times> Storage" where
  "next bm i s =
     (case getBundle s i of
        None \<Rightarrow> (Inl (BundleNotFound i), s)
      | Some b \<Rightarrow>
          if status b \<noteq> Success then (Inl (BundleNotReady i (status b)), s)
          else if \<not> verifyBundleIntegrity bm s i then (Inl (IntegrityCheckFailed i), s)
          else await (save (setNextBundleId (Some i) s)) (\<lambda>_ s'. (Inr b, s')))"

definition deleteBundle :: "string \<Rightarrow> Storage \<Rightarrow> (err + unit) \<times> Storage" where
  "deleteBundle i s =
     (let currentId = getCurrentBundleId s;
          nextId = getNextBundleId s
      in if i = BUILTIN_BUNDLE_ID then (Inl CannotDeleteBuiltin, s)
         else if i = currentId then (Inl CannotDeleteCurrent, s)
         else if Some i = nextId then (Inl CannotDeleteNext, s)
         else save (storage_deleteBundle i (deleteBundleFiles i s)))"

definition set_bundle :: "BundleManager \<Rightarrow> string \<Rightarrow> Storage \<Rightarrow> (err + BundleInfo) \<times> Storage" where
  "set_bundle bm i s =
     (let b = getBundle s i
      in if b = None \<and> i \<noteq> BUILTIN_BUNDLE_ID then (Inl (BundleNotFound i), s)
         else if i \<noteq> BUILTIN_BUNDLE_ID \<and> \<not> verifyBundleIntegrity bm s i
         then (Inl (IntegrityCheckFailed i), s)
         else
           (let previousId = getCurrentBundleId s
            in await (save (setNextBundleId None (setCurrentBundleId i s)))
                 (\<lambda>_ s'.
                    (Inr (case b of None \<Rightarrow> getBuiltinBundle bm | Some x \<Rightarrow> x),
                     if autoDeletePrevious bm \<and> previousId \<noteq> BUILTIN_BUNDLE_ID \<and> previousId \<noteq> i
                     then swallow (deleteBundle previousId s')
                     else s'))))"

definition recordFailedUpdate :: "BundleInfo \<Rightarrow> Storage \<Rightarrow> (err + unit) \<times> Storage" where
  "recordFailedUpdate b s = save (setFailedUpdate (Some \<lparr>failed_bundle = b\<rparr>) s)"

definition getFailedUpdate :: "Storage \<Rightarrow> (err + UpdateFailedEvent option) \<times> Storage" where
  "getFailedUpdate s = (let (failed, s') = clearFailedUpdate s in (Inr failed, s'))"

definition markBundleSuccessful :: "Storage \<Rightarrow> (err + unit) \<times> Storage" where
  "markBundleSuccessful s =
     (let currentId = getCurrentBundleId s
      in save (setLastSuccessfulBundleId (Some currentId) s))"

text \<open>
  \<^verbatim>\<open>applyPendingUpdate\<close>: \<^verbatim>\<open>!nextId\<close> holds for \<^verbatim>\<open>null\<close> and for the empty string.
\<close>

definition applyPendingUpdate :: "BundleManager \<Rightarrow> Storage \<Rightarrow> (err + ApplyResult) \<times> Storage" where
  "applyPendingUpdate bm s =
     (let nextId = getNextBundleId s;
          currentId = getCurrentBundleId s
      in case nextId of
           None \<Rightarrow> (Inr \<lparr>applied = False, bundleId = currentId\<rparr>, s)
         | Some n \<Rightarrow>
             if n = [] \<or> n = currentId then (Inr \<lparr>applied = False, bundleId = currentId\<rparr>, s)
             else
               (case getBundle s n of
                  None \<Rightarrow>
                    await (save (setNextBundleId None s))
                      (\<lambda>_ s'. (Inr \<lparr>applied = False, bundleId = currentId\<rparr>, s'))
                | Some b \<Rightarrow>
                    if \<not> verifyBundleIntegrity bm s n
                    then await (save (setNextBundleId None (setBundle n (b\<lparr>status := Error\<rparr>) s)))
                           (\<lambda>_ s'. (Inr \<lparr>applied = False, bundleId = currentId\<rparr>, s'))
                    else await (save (setNextBundleId None (setCurrentBundleId n s)))
                           (\<lambda>_ s'.
                              (Inr \<lparr>applied = True, bundleId = n\<rparr>,
                               if autoDeletePrevious bm \<and> currentId \<noteq> BUILTIN_BUNDLE_ID
                               then swallow (deleteBundle currentId s')
                               else s'))))"

text \<open>
  \<^verbatim>\<open>rollback\<close>: \<^verbatim>\<open>lastSuccessfulId ?? BUILTIN_BUNDLE_ID\<close> replaces \<^verbatim>\<open>null\<close> only.
  \<^verbatim>\<open>currentBundle.status = 'error'\<close> writes through the object the manifest holds;
  the \<open>setBundle\<close> that follows stores the same value, so the model's value semantics
  agrees with the source. The failed-update record shares that object in memory; the
  only field the manager ever writes is \<^verbatim>\<open>status\<close>, and only to \<^verbatim>\<open>'error'\<close>, which
  the shared object has already.
\<close>

definition rollback :: "BundleManager \<Rightarrow> Storage \<Rightarrow> (err + BundleInfo) \<times> Storage" where
  "rollback bm s =
     (let currentId = getCurrentBundleId s;
          lastSuccessfulId = getLastSuccessfulBundleId s;
          targetId = (case lastSuccessfulId of None \<Rightarrow> BUILTIN_BUNDLE_ID | Some t \<Rightarrow> t)
      in await
           (case getBundle s currentId of
              None \<Rightarrow> (Inr (), s)
            | Some currentBundle \<Rightarrow>
                (let failedBundle = currentBundle\<lparr>status := Error\<rparr>
                 in await (recordFailedUpdate failedBundle (setBundle currentId failedBundle s))
                      (\<lambda>_ s'.
                         (Inr (),
                          if autoDeleteFailed bm then swallow (deleteBundle currentId s')
                          else s'))))
           (\<lambda>_ s'.
              await (save (setNextBundleId None (setCurrentBundleId targetId s')))
                (\<lambda>_ s''.
                   (Inr (case getBundle s'' targetId of
                           None \<Rightarrow> getBuiltinBundle bm
                         | Some b \<Rightarrow> b),
                    s''))))"


section \<open>Delay manager (src/src/main/delay-manager.ts)\<close>

text \<open>
  A JavaScript number as far as the date condition needs it: an integral time value in
  milliseconds, or \<^verbatim>\<open>NaN\<close>. A comparison with \<^verbatim>\<open>NaN\<close> is false.
\<close>

datatype js_number = NaN | Num int

definition js_ge :: "js_number \<Rightarrow> js_number \<Rightarrow> bool" where
  "js_ge a b = (case a of NaN \<Rightarrow> False | Num x \<Rightarrow> (case b of NaN \<Rightarrow> False | Num y \<Rightarrow> y \<le> x))"

text \<open>
  \<^verbatim>\<open>isDateConditionSatisfied(value?: string)\<close>. The parameter \<open>Date_getTime\<close> stands for
  \<^verbatim>\<open>new Date(value).getTime()\<close>, which is \<^verbatim>\<open>NaN\<close> for a string that is not a date, and
  \<open>now\<close> for \<^verbatim>\<open>Date.now()\<close>. The \<^verbatim>\<open>Date\<close> constructor does not throw on a string, so
  the \<^verbatim>\<open>catch\<close> branch of the source is never taken. \<^verbatim>\<open>!value\<close> holds for
  \<^verbatim>\<open>undefined\<close> and for the empty string.
\<close>

definition isDateConditionSatisfied :: "(string \<Rightarrow> js_number) \<Rightarrow> int \<Rightarrow> string option \<Rightarrow> bool" where
  "isDateConditionSatisfied Date_getTime now v =
     (case v of
        None \<Rightarrow> True
      | Some x \<Rightarrow>
          if x = [] then True
          else (let targetTime = Date_getTime x in js_ge (Num now) targetTime))"


section \<open>Crypto manager (src/src/main/delay-manager.ts, second document)\<close>

type_synonym Buffer = "nat list"

record DecryptedSessionKey =
  iv :: Buffer
  aesKey :: Buffer

record CryptoManager =
  publicKey :: "string option"

text \<open>
  \<^verbatim>\<open>String.prototype.split\<close> with a one-character separator: the fields between the
  separators, so one field more than there are separators.
\<close>

fun split :: "char \<Rightarrow> string \<Rightarrow> string list" where
  "split c [] = [[]]"
| "split c (x # xs) =
     (if x = c then [] # split c xs
      else (case split c xs of
              [] \<Rightarrow> [[x]]
            | f # fs \<Rightarrow> (x # f) # fs))"

text \<open>
  \<^verbatim>\<open>parseSessionKey\<close>. \<open>from_base64\<close> stands for \<^verbatim>\<open>Buffer.from(_, 'base64')\<close>, which
  does not throw; \<open>publicDecrypt\<close> for \<^verbatim>\<open>crypto.publicDecrypt\<close> with the configured key,
  which throws on a malformed key or ciphertext (\<open>Inl\<close>). The result is \<open>Inl\<close> if the
  call throws and \<open>Inr None\<close> if it returns \<^verbatim>\<open>null\<close>. \<^verbatim>\<open>!this.publicKey\<close> holds for
  \<^verbatim>\<open>null\<close> and for the empty string.
\<close>

definition try_catch :: "err + 'a \<Rightarrow> (err \<Rightarrow> err + 'a) \<Rightarrow> err + 'a" where
  "try_catch body handler = (case body of Inl e \<Rightarrow> handler e | Inr x \<Rightarrow> Inr x)"

definition parseSessionKey ::
  "(string \<Rightarrow> Buffer) \<Rightarrow> (string \<Rightarrow> Buffer \<Rightarrow> err + Buffer) \<Rightarrow> CryptoManager \<Rightarrow> string
     \<Rightarrow> err + DecryptedSessionKey option" where
  "parseSessionKey from_base64 publicDecrypt cm sessionKey =
     (case publicKey cm of
        None \<Rightarrow> Inr None
      | Some key \<Rightarrow>
          if key = [] then Inr None
          else
            try_catch
              (case split CHR '':'' sessionKey of
                 [p0, p1] \<Rightarrow>
                   (case publicDecrypt key (from_base64 p1) of
                      Inl e \<Rightarrow> Inl e
                    | Inr k \<Rightarrow> Inr (Some \<lparr>iv = from_base64 p0, aesKey = k\<rparr>))
               | _ \<Rightarrow> Inr None)
              (\<lambda>_. Inr None))"


section \<open>Invariant of the bundle map and example states\<close>

text \<open>
  The data model stores every bundle under its own id
  (\<^verbatim>\<open>bundles: Record<string, BundleInfo>\<close>, keyed by \<^verbatim>\<open>BundleInfo.id\<close>).
\<close>

definition keys_are_ids :: "Storage \<Rightarrow> bool" where
  "keys_are_ids s =
     (case data s of
        None \<Rightarrow> True
      | Some d \<Rightarrow> list_all (\<lambda>(k, b). bid b = k) (bundles (manifest d)))"

text \<open>Three downloaded bundles, a manager with the default configuration, and states.\<close>

definition bundle_b1 :: BundleInfo where
  "bundle_b1 =
     \<lparr>bid = ''b1'', version = ''1.0.1'', downloaded = ''2025-01-01T00:00:00.000Z'',
      checksum = ''abc'', status = Success\<rparr>"

definition bundle_b2 :: BundleInfo where
  "bundle_b2 =
     \<lparr>bid = ''b2'', version = ''1.0.2'', downloaded = ''2025-02-01T00:00:00.000Z'',
      checksum = ''def'', status = Success\<rparr>"

definition bundle_b3 :: BundleInfo where
  "bundle_b3 =
     \<lparr>bid = ''b3'', version = ''1.0.3'', downloaded = ''2025-03-01T00:00:00.000Z'',
      checksum = ''fed'', status = Success\<rparr>"

definition storage_of :: "BundleManifest \<Rightarrow> Storage" where
  "storage_of m =
     \<lparr>data = Some \<lparr>deviceId = ''device'', manifest = m, updateUrl = None, statsUrl = None,
                   channelUrl = None, appId = None\<rparr>,
      saved = Some \<lparr>deviceId = ''device'', manifest = m, updateUrl = None, statsUrl = None,
                    channelUrl = None, appId = None\<rparr>,
      dirs = map fst (bundles m), writes = [], locked = []\<rparr>"

definition manager :: BundleManager where
  "manager =
     \<lparr>builtinVersion = ''1.0.0'', builtinPath = ''/app/www/index.html'',
      autoDeleteFailed = True, autoDeletePrevious = True,
      verifyBundleIntegrity = (\<lambda>_ _. True)\<rparr>"

text \<open>After three downloads on a fresh installation: the builtin bundle is current.\<close>

definition installed :: Storage where
  "installed =
     storage_of (createDefaultManifest
       \<lparr>bundles := [(''b1'', bundle_b1), (''b2'', bundle_b2), (''b3'', bundle_b3)]\<rparr>)"

text \<open>Bundle b1 is current and b2 is queued as next.\<close>

definition running :: Storage where
  "running =
     storage_of (createDefaultManifest
       \<lparr>bundles := [(''b1'', bundle_b1), (''b2'', bundle_b2), (''b3'', bundle_b3)],
        currentBundleId := ''b1'', nextBundleId := Some ''b2''\<rparr>)"

text \<open>The state after \<open>rollback\<close> in \<open>running\<close>: b1 has failed and the builtin bundle is current.\<close>

definition rolled_back :: Storage where
  "rolled_back = snd (rollback manager running)"

text \<open>
  From \<open>installed\<close>, b1 is activated with \<open>set\<close> and confirmed by the ready signal:
  b1 is both the current and the last successful bundle.
\<close>

definition confirmed_b1 :: Storage where
  "confirmed_b1 = snd (markBundleSuccessful (snd (set_bundle manager ''b1'' installed)))"

definition crypto :: CryptoManager where
  "crypto = \<lparr>publicKey = Some ''-----BEGIN RSA PUBLIC KEY-----''\<rparr>"


section \<open>The phases of rollback\<close>

text \<open>
  Names for the intermediate states of \<open>rollback\<close>, each put together from the calls
  of the source: \<open>failure_recorded b s\<close> is the state after
  \<^verbatim>\<open>setBundle(currentId, currentBundle)\<close> and \<^verbatim>\<open>recordFailedUpdate(currentBundle)\<close>,
  in which the internal \<open>deleteBundle\<close> is attempted; \<open>rollback_target\<close> is
  \<^verbatim>\<open>lastSuccessfulId ?? BUILTIN_BUNDLE_ID\<close>; \<open>reset_to\<close> is the final
  \<^verbatim>\<open>setCurrentBundleId(targetId); setNextBundleId(null); save()\<close>.
\<close>

definition failure_recorded :: "BundleInfo \<Rightarrow> Storage \<Rightarrow> Storage" where
  "failure_recorded b s =
     snd (recordFailedUpdate (b\<lparr>status := Error\<rparr>)
            (setBundle (getCurrentBundleId s) (b\<lparr>status := Error\<rparr>) s))"

definition rollback_target :: "Storage \<Rightarrow> string" where
  "rollback_target s =
     (case getLastSuccessfulBundleId s of None \<Rightarrow> BUILTIN_BUNDLE_ID | Some t \<Rightarrow> t)"

definition reset_to :: "string \<Rightarrow> Storage \<Rightarrow> Storage" where
  "reset_to targetId s = snd (save (setNextBundleId None (setCurrentBundleId targetId s)))"

lemmas example_defs = bundle_b1_def bundle_b2_def bundle_b3_def storage_of_def manager_def
  installed_def running_def createDefaultManifest_def BUILTIN_BUNDLE_ID_def


section \<open>Facts about the storage manager\<close>

lemma await_alt:
  "await r k = (case fst r of Inl e \<Rightarrow> (Inl e, snd r) | Inr x \<Rightarrow> k x (snd r))"
  by (simp add: await_def split: prod.splits sum.splits)

lemmas getters = getBundle_def getCurrentBundleId_def getNextBundleId_def
  getLastSuccessfulBundleId_def storage_getFailedUpdate_def getAllBundles_def

lemmas setters = update_manifest_def setBundle_def storage_deleteBundle_def
  setCurrentBundleId_def setNextBundleId_def setLastSuccessfulBundleId_def setFailedUpdate_def

lemma data_save: "data (snd (save s)) = data s"
  by (simp add: save_def split: option.splits)

lemma data_deleteBundleFiles: "data (deleteBundleFiles i s) = data s"
  by (simp add: deleteBundleFiles_def)

lemma next_save: "getNextBundleId (snd (save s)) = getNextBundleId s"
  by (simp add: getNextBundleId_def data_save)

lemma current_save: "getCurrentBundleId (snd (save s)) = getCurrentBundleId s"
  by (simp add: getCurrentBundleId_def data_save)

lemma bundle_save: "getBundle (snd (save s)) i = getBundle s i"
  by (simp add: getBundle_def data_save)

lemma next_setNext:
  "getNextBundleId (setNextBundleId x s) = (if data s = None then None else x)"
  by (simp add: getNextBundleId_def setters split: option.splits)

lemma next_deleteBundle: "getNextBundleId (snd (deleteBundle i s)) = getNextBundleId s"
  by (simp add: deleteBundle_def Let_def getters setters data_save data_deleteBundleFiles
      split: option.splits)

lemma current_deleteBundle: "getCurrentBundleId (snd (deleteBundle i s)) = getCurrentBundleId s"
  by (simp add: deleteBundle_def Let_def getters setters data_save data_deleteBundleFiles
      split: option.splits)


text \<open>The equations that evaluate the operations on the example states.\<close>

lemmas eval_defs = example_defs getters setters save_def next_write_ok_def deleteBundle_def
  deleteBundleFiles_def list_bundles_def getBuiltinBundle_def bundleExists_def keys_are_ids_def
  await_def swallow_def AList.delete_eq


section \<open>applyPendingUpdate twice\<close>

lemma applyPendingUpdate_no_next:
  "getNextBundleId t = None \<or> getNextBundleId t = Some [] \<or>
   getNextBundleId t = Some (getCurrentBundleId t) \<Longrightarrow>
   applyPendingUpdate bm t = (Inr \<lparr>applied = False, bundleId = getCurrentBundleId t\<rparr>, t)"
  by (auto simp add: applyPendingUpdate_def)

lemma applyPendingUpdate_first:
  "(getNextBundleId s = None \<or> getNextBundleId s = Some [] \<or>
    getNextBundleId s = Some (getCurrentBundleId s)) \<and> snd (applyPendingUpdate bm s) = s
   \<or> getNextBundleId (snd (applyPendingUpdate bm s)) = None"
  by (auto simp add: applyPendingUpdate_def Let_def await_alt swallow_def next_deleteBundle
      next_save next_setNext split: option.splits sum.splits)

text \<open>
  Claim C3. Whatever the manifest, the verdicts of the integrity check and the outcomes of
  the writes, a second \<open>applyPendingUpdate\<close> run on the state the first one left returns
  \<open>applied = False\<close> with the current bundle id the first call left, and changes
  nothing: the two calls together swap \<open>currentBundleId\<close> at most once. (The second call
  may even consult a different integrity verdict \<open>bm'\<close>.)
\<close>

theorem applyPendingUpdate_idempotent:
  "applyPendingUpdate bm' (snd (applyPendingUpdate bm s)) =
     (Inr \<lparr>applied = False, bundleId = getCurrentBundleId (snd (applyPendingUpdate bm s))\<rparr>,
      snd (applyPendingUpdate bm s))"
proof -
  let ?t = "snd (applyPendingUpdate bm s)"
  have "getNextBundleId ?t = None \<or> getNextBundleId ?t = Some [] \<or>
        getNextBundleId ?t = Some (getCurrentBundleId ?t)"
    using applyPendingUpdate_first[of s bm] by auto
  then show ?thesis
    by (rule applyPendingUpdate_no_next)
qed

theorem applyPendingUpdate_idempotent_witness:
  "fst (applyPendingUpdate manager running) = Inr \<lparr>applied = True, bundleId = ''b2''\<rparr>
   \<and> getBundle (snd (applyPendingUpdate manager running)) ''b1'' = None
   \<and> applyPendingUpdate manager (snd (applyPendingUpdate manager running)) =
       (Inr \<lparr>applied = False, bundleId = ''b2''\<rparr>, snd (applyPendingUpdate manager running))"
  using applyPendingUpdate_idempotent[of manager manager running]
  by (simp add: eval_defs applyPendingUpdate_def Let_def)


section \<open>Saving\<close>

lemma save_ok:
  "next_write_ok s \<Longrightarrow> data s = Some d \<Longrightarrow>
   save s = (Inr (), s\<lparr>saved := Some d, writes := drop 1 (writes s)\<rparr>)"
  by (simp add: save_def)

lemma save_failed:
  "\<not> next_write_ok s \<Longrightarrow> data s = Some d \<Longrightarrow>
   save s = (Inl WriteFailed, s\<lparr>writes := drop 1 (writes s)\<rparr>)"
  by (simp add: save_def)

lemma next_write_ok_update_manifest: "next_write_ok (update_manifest f s) = next_write_ok s"
  by (simp add: next_write_ok_def update_manifest_def split: option.splits)


section \<open>next\<close>

lemma next_accepted:
  assumes "getBundle s i = Some b" "status b = Success" "verifyBundleIntegrity bm s i"
  shows "next bm i s = await (save (setNextBundleId (Some i) s)) (\<lambda>_ s'. (Inr b, s'))"
  using assms by (simp add: next_def)

lemma save_setNextBundleId:
  assumes "data s = Some d"
  shows "save (setNextBundleId n s) =
     (if next_write_ok s
      then (Inr (), s\<lparr>data := Some (d\<lparr>manifest := (manifest d)\<lparr>nextBundleId := n\<rparr>\<rparr>),
                      saved := Some (d\<lparr>manifest := (manifest d)\<lparr>nextBundleId := n\<rparr>\<rparr>),
                      writes := drop 1 (writes s)\<rparr>)
      else (Inl WriteFailed, s\<lparr>data := Some (d\<lparr>manifest := (manifest d)\<lparr>nextBundleId := n\<rparr>\<rparr>),
                               writes := drop 1 (writes s)\<rparr>))"
  using assms by (simp add: save_def setNextBundleId_def update_manifest_def next_write_ok_def)

text \<open>
  Claim C4. When the write of the manifest succeeds, \<open>next bm i s\<close> returns a bundle
  exactly when \<open>i\<close> is stored with status \<open>Success\<close> and the integrity check passes.
  An unknown id, a status other than \<open>Success\<close> and a failed integrity check each end
  the call with their error and the state it started from. When the call returns a
  bundle, it is the stored one, the document in memory differs from the old one in
  \<open>nextBundleId\<close> only, which is \<open>Some i\<close>, and that document is the one on disk.
\<close>

theorem next_succeeds_iff:
  "(next_write_ok s \<longrightarrow>
      ((\<exists>b. fst (next bm i s) = Inr b) \<longleftrightarrow>
       (\<exists>b. getBundle s i = Some b \<and> status b = Success \<and> verifyBundleIntegrity bm s i)))
   \<and> (getBundle s i = None \<longrightarrow> next bm i s = (Inl (BundleNotFound i), s))
   \<and> (\<forall>b. getBundle s i = Some b \<and> status b \<noteq> Success \<longrightarrow>
          next bm i s = (Inl (BundleNotReady i (status b)), s))
   \<and> (\<forall>b. getBundle s i = Some b \<and> status b = Success \<and> \<not> verifyBundleIntegrity bm s i \<longrightarrow>
          next bm i s = (Inl (IntegrityCheckFailed i), s))
   \<and> (\<forall>b. fst (next bm i s) = Inr b \<longrightarrow>
          getBundle s i = Some b \<and>
          snd (next bm i s) =
            s\<lparr>data := map_option (\<lambda>d. d\<lparr>manifest := (manifest d)\<lparr>nextBundleId := Some i\<rparr>\<rparr>) (data s),
              saved := map_option (\<lambda>d. d\<lparr>manifest := (manifest d)\<lparr>nextBundleId := Some i\<rparr>\<rparr>) (data s),
              writes := drop 1 (writes s)\<rparr>)"
proof (cases "getBundle s i")
  case None
  then show ?thesis by (simp add: next_def)
next
  case (Some b)
  then obtain d where d: "data s = Some d"
    by (auto simp: getBundle_def split: option.splits)
  show ?thesis
  proof (cases "status b = Success \<and> verifyBundleIntegrity bm s i")
    case False
    with Some show ?thesis by (auto simp: next_def)
  next
    case True
    with Some have "next bm i s = await (save (setNextBundleId (Some i) s)) (\<lambda>_ s'. (Inr b, s'))"
      by (simp add: next_accepted)
    with Some True d show ?thesis
      by (simp add: save_setNextBundleId[OF d] await_def)
  qed
qed

theorem next_succeeds_iff_witness:
  "next_write_ok installed \<and> getBundle installed ''b1'' = Some bundle_b1
   \<and> status bundle_b1 = Success \<and> verifyBundleIntegrity manager installed ''b1''
   \<and> fst (next manager ''b1'' installed) = Inr bundle_b1
   \<and> getNextBundleId (snd (next manager ''b1'' installed)) = Some ''b1''
   \<and> saved (snd (next manager ''b1'' installed)) = data (snd (next manager ''b1'' installed))
   \<and> next manager ''b9'' installed = (Inl (BundleNotFound ''b9''), installed)"
  using next_succeeds_iff[of installed manager "''b1''"] next_succeeds_iff[of installed manager "''b9''"]
  by (simp add: next_def eval_defs)

text \<open>
  When the write fails instead, an accepted \<open>next\<close> ends with \<open>WriteFailed\<close> and the
  document in memory already holds the new \<open>nextBundleId\<close>.
\<close>

lemma next_write_failed:
  assumes "getBundle s i = Some b" "status b = Success" "verifyBundleIntegrity bm s i"
    and "\<not> next_write_ok s"
  shows "fst (next bm i s) = Inl WriteFailed \<and> getNextBundleId (snd (next bm i s)) = Some i"
proof -
  from assms(1) obtain d where d: "data s = Some d"
    by (auto simp: getBundle_def split: option.splits)
  then obtain d' where d': "data (setNextBundleId (Some i) s) = Some d'"
    by (simp add: setters)
  have "\<not> next_write_ok (setNextBundleId (Some i) s)"
    using assms(4) by (simp add: setNextBundleId_def next_write_ok_update_manifest)
  from save_failed[OF this d'] assms(1-3) d show ?thesis
    by (simp add: next_def await_def getNextBundleId_def setters)
qed


section \<open>deleteBundle\<close>

lemma deleteBundle_rejected:
  "i = BUILTIN_BUNDLE_ID \<or> i = getCurrentBundleId s \<or> Some i = getNextBundleId s \<Longrightarrow>
   deleteBundle i s =
     (Inl (if i = BUILTIN_BUNDLE_ID then CannotDeleteBuiltin
           else if i = getCurrentBundleId s then CannotDeleteCurrent
           else CannotDeleteNext), s)"
  by (auto simp: deleteBundle_def Let_def)

lemma deleteBundle_accepted:
  "i \<noteq> BUILTIN_BUNDLE_ID \<Longrightarrow> i \<noteq> getCurrentBundleId s \<Longrightarrow> Some i \<noteq> getNextBundleId s \<Longrightarrow>
   deleteBundle i s = save (storage_deleteBundle i (deleteBundleFiles i s))"
  by (simp add: deleteBundle_def Let_def)

lemma getBundle_storage_deleteBundle:
  "getBundle (storage_deleteBundle i s) j = (if j = i then None else getBundle s j)"
  by (auto simp: getBundle_def setters AList.delete_conv' split: option.splits)

lemma getBundle_deleteBundleFiles: "getBundle (deleteBundleFiles i s) j = getBundle s j"
  by (simp add: getBundle_def data_deleteBundleFiles)

lemma getAllBundles_save: "getAllBundles (snd (save s)) = getAllBundles s"
  by (simp add: getAllBundles_def data_save)

lemma bid_getAllBundles_delete:
  assumes "keys_are_ids s"
    and "x \<in> set (getAllBundles (storage_deleteBundle i (deleteBundleFiles i s)))"
  shows "bid x \<noteq> i"
proof (cases "data s")
  case None
  with assms show ?thesis
    by (simp add: getAllBundles_def setters data_deleteBundleFiles)
next
  case (Some d)
  with assms(2) obtain k where k: "(k, x) \<in> set (AList.delete i (bundles (manifest d)))"
    by (auto simp: getAllBundles_def setters data_deleteBundleFiles)
  then have "k \<noteq> i" and "(k, x) \<in> set (bundles (manifest d))"
    by (auto simp: AList.delete_eq)
  moreover from assms(1) Some have "\<forall>(k, b) \<in> set (bundles (manifest d)). bid b = k"
    by (simp add: keys_are_ids_def list_all_iff)
  ultimately show ?thesis by auto
qed


text \<open>
  Claim C5. \<open>deleteBundle i\<close> is rejected with an error, the state left as it was, when
  \<open>i\<close> is the builtin id, the current id or the next id. In every other case where \<open>i\<close>
  is stored, the entry of \<open>i\<close> is removed from the bundle map; the call returns normally
  when the write of the manifest succeeds; and, the bundles being stored under their own
  ids, no bundle with id \<open>i\<close> is in the output of \<open>list\<close> afterwards, raw or not.
\<close>

theorem deleteBundle_guards:
  "(i = BUILTIN_BUNDLE_ID \<or> i = getCurrentBundleId s \<or> Some i = getNextBundleId s \<longrightarrow>
      (\<exists>e. deleteBundle i s = (Inl e, s)))
   \<and> (i \<noteq> BUILTIN_BUNDLE_ID \<and> i \<noteq> getCurrentBundleId s \<and> Some i \<noteq> getNextBundleId s \<and>
      getBundle s i \<noteq> None \<longrightarrow>
        (next_write_ok s \<longrightarrow> fst (deleteBundle i s) = Inr ()) \<and>
        getBundle (snd (deleteBundle i s)) i = None \<and>
        (keys_are_ids s \<longrightarrow>
           (\<forall>raw. \<forall>x \<in> set (list_bundles bm raw (snd (deleteBundle i s))). bid x \<noteq> i)))"
proof (intro conjI impI)
  assume "i = BUILTIN_BUNDLE_ID \<or> i = getCurrentBundleId s \<or> Some i = getNextBundleId s"
  then show "\<exists>e. deleteBundle i s = (Inl e, s)"
    using deleteBundle_rejected by blast
next
  assume a: "i \<noteq> BUILTIN_BUNDLE_ID \<and> i \<noteq> getCurrentBundleId s \<and> Some i \<noteq> getNextBundleId s \<and>
      getBundle s i \<noteq> None"
  let ?t = "storage_deleteBundle i (deleteBundleFiles i s)"
  from a have del: "deleteBundle i s = save ?t"
    by (simp add: deleteBundle_accepted)
  from a obtain d where "data s = Some d"
    by (auto simp: getBundle_def split: option.splits)
  then obtain d' where d': "data ?t = Some d'"
    by (simp add: setters data_deleteBundleFiles)
  show "getBundle (snd (deleteBundle i s)) i = None"
    by (simp add: del bundle_save getBundle_storage_deleteBundle)
  {
    assume "next_write_ok s"
    then have ok: "next_write_ok ?t"
      by (simp add: storage_deleteBundle_def next_write_ok_def deleteBundleFiles_def
          update_manifest_def split: option.splits)
    show "fst (deleteBundle i s) = Inr ()"
      using save_ok[OF ok d'] del by simp
  }
  {
    assume k: "keys_are_ids s"
    show "\<forall>raw. \<forall>x \<in> set (list_bundles bm raw (snd (deleteBundle i s))). bid x \<noteq> i"
    proof (intro allI ballI)
      fix raw x
      assume "x \<in> set (list_bundles bm raw (snd (deleteBundle i s)))"
      then have "x = getBuiltinBundle bm \<or> x \<in> set (getAllBundles ?t)"
        by (auto simp: list_bundles_def Let_def del getAllBundles_save split: if_splits)
      then show "bid x \<noteq> i"
      proof
        assume "x = getBuiltinBundle bm"
        with a show ?thesis by (auto simp: getBuiltinBundle_def)
      next
        assume "x \<in> set (getAllBundles ?t)"
        with k show ?thesis using bid_getAllBundles_delete by blast
      qed
    qed
  }
qed

theorem deleteBundle_guards_witness:
  "deleteBundle BUILTIN_BUNDLE_ID running = (Inl CannotDeleteBuiltin, running)
   \<and> deleteBundle ''b1'' running = (Inl CannotDeleteCurrent, running)
   \<and> deleteBundle ''b2'' running = (Inl CannotDeleteNext, running)
   \<and> ''b3'' \<noteq> BUILTIN_BUNDLE_ID \<and> ''b3'' \<noteq> getCurrentBundleId running
   \<and> Some ''b3'' \<noteq> getNextBundleId running
   \<and> getBundle running ''b3'' = Some bundle_b3 \<and> next_write_ok running \<and> keys_are_ids running
   \<and> fst (deleteBundle ''b3'' running) = Inr ()
   \<and> getBundle (snd (deleteBundle ''b3'' running)) ''b3'' = None
   \<and> map bid (list_bundles manager False (snd (deleteBundle ''b3'' running))) =
       [''builtin'', ''b1'', ''b2'']"
  using deleteBundle_guards[of "''b3''" running manager]
    deleteBundle_guards[of "''b1''" running manager]
  by (simp add: eval_defs)

text \<open>
  Claim C10. For a stored bundle that is neither builtin nor current nor next, the entry
  is removed from the bundle map whether or not the directory could be removed; the only
  error \<open>deleteBundle\<close> can end with is the failed write of the manifest; the directory
  stays on disk exactly when its removal fails; and the result and the document in
  memory are the same for every set \<open>l\<close> of directories that cannot be removed.
\<close>

theorem deleteBundle_rm_failure:
  assumes "i \<noteq> BUILTIN_BUNDLE_ID" "i \<noteq> getCurrentBundleId s" "Some i \<noteq> getNextBundleId s"
    and "getBundle s i = Some b"
  shows "getBundle (snd (deleteBundle i s)) i = None
     \<and> fst (deleteBundle i s) = (if next_write_ok s then Inr () else Inl WriteFailed)
     \<and> dirs (snd (deleteBundle i s)) = (if i \<in> set (locked s) then dirs s else removeAll i (dirs s))
     \<and> fst (deleteBundle i (s\<lparr>locked := l\<rparr>)) = fst (deleteBundle i s)
     \<and> data (snd (deleteBundle i (s\<lparr>locked := l\<rparr>))) = data (snd (deleteBundle i s))"
proof -
  from assms(4) obtain d where d: "data s = Some d"
    by (auto simp: getBundle_def split: option.splits)
  have del: "deleteBundle i t = save (storage_deleteBundle i (deleteBundleFiles i t))"
    if "data t = data s" for t
    using assms(1-3) that by (simp add: deleteBundle_def Let_def getters)
  show ?thesis
    using d
    by (simp add: del bundle_save getBundle_storage_deleteBundle data_save)
      (simp add: save_def setters deleteBundleFiles_def next_write_ok_def)
qed

theorem deleteBundle_rm_failure_witness:
  "''b3'' \<noteq> BUILTIN_BUNDLE_ID \<and> ''b3'' \<noteq> getCurrentBundleId (running\<lparr>locked := [''b3'']\<rparr>)
   \<and> Some ''b3'' \<noteq> getNextBundleId (running\<lparr>locked := [''b3'']\<rparr>)
   \<and> getBundle (running\<lparr>locked := [''b3'']\<rparr>) ''b3'' = Some bundle_b3
   \<and> fst (deleteBundle ''b3'' (running\<lparr>locked := [''b3'']\<rparr>)) = Inr ()
   \<and> getBundle (snd (deleteBundle ''b3'' (running\<lparr>locked := [''b3'']\<rparr>))) ''b3'' = None
   \<and> dirs (snd (deleteBundle ''b3'' (running\<lparr>locked := [''b3'']\<rparr>))) = [''b1'', ''b2'', ''b3'']"
  using deleteBundle_rm_failure[of "''b3''" "running\<lparr>locked := [''b3'']\<rparr>" bundle_b3 "[]"]
  by (simp add: eval_defs)



section \<open>rollback\<close>

lemma deleteBundle_current:
  "deleteBundle (getCurrentBundleId t) t =
     (Inl (if getCurrentBundleId t = BUILTIN_BUNDLE_ID then CannotDeleteBuiltin
           else CannotDeleteCurrent), t)"
  by (simp add: deleteBundle_rejected)

lemma current_failure_recorded:
  "getCurrentBundleId (failure_recorded b s) = getCurrentBundleId s"
  by (simp add: failure_recorded_def recordFailedUpdate_def current_save)
    (simp add: getters setters split: option.splits)

lemma rollback_first_phase:
  assumes "getBundle s (getCurrentBundleId s) = Some b"
  shows "getBundle (failure_recorded b s) (getCurrentBundleId s) = Some (b\<lparr>status := Error\<rparr>)
    \<and> storage_getFailedUpdate (failure_recorded b s) = Some \<lparr>failed_bundle = b\<lparr>status := Error\<rparr>\<rparr>"
proof -
  from assms obtain d where d: "data s = Some d"
    by (auto simp: getBundle_def split: option.splits)
  then show ?thesis
    by (simp add: failure_recorded_def recordFailedUpdate_def bundle_save storage_getFailedUpdate_def
        data_save)
      (simp add: getBundle_def setters AList.update_conv')
qed

text \<open>
  The internal delete is rejected and swallowed, so nothing happens between the two
  phases; when the write of \<open>recordFailedUpdate\<close> fails, \<open>rollback\<close> ends there.
\<close>

lemma rollback_stored:
  assumes "getBundle s (getCurrentBundleId s) = Some b"
  shows "snd (rollback bm s) =
     (if fst (recordFailedUpdate (b\<lparr>status := Error\<rparr>)
            (setBundle (getCurrentBundleId s) (b\<lparr>status := Error\<rparr>) s)) = Inr ()
      then reset_to (rollback_target s) (failure_recorded b s)
      else failure_recorded b s)"
  using assms deleteBundle_current[of "failure_recorded b s"]
  by (auto simp add: rollback_def Let_def await_alt swallow_def reset_to_def rollback_target_def
      failure_recorded_def[symmetric] current_failure_recorded
      split: sum.splits option.splits)

lemma rollback_not_stored:
  assumes "getBundle s (getCurrentBundleId s) = None"
  shows "snd (rollback bm s) = reset_to (rollback_target s) s"
  using assms
  by (auto simp add: rollback_def Let_def await_alt reset_to_def rollback_target_def
      split: sum.splits option.splits)

lemma rollback_stored_write_ok:
  assumes "getBundle s (getCurrentBundleId s) = Some b" and "next_write_ok s"
  shows "snd (rollback bm s) = reset_to (rollback_target s) (failure_recorded b s)"
proof -
  from assms(1) obtain d where d: "data s = Some d"
    by (auto simp: getBundle_def split: option.splits)
  let ?t = "setFailedUpdate (Some \<lparr>failed_bundle = b\<lparr>status := Error\<rparr>\<rparr>)
              (setBundle (getCurrentBundleId s) (b\<lparr>status := Error\<rparr>) s)"
  from d obtain d' where d': "data ?t = Some d'"
    by (simp add: setters)
  from assms(2) have "next_write_ok ?t"
    by (simp add: setFailedUpdate_def setBundle_def next_write_ok_update_manifest)
  from save_ok[OF this d'] have "fst (recordFailedUpdate (b\<lparr>status := Error\<rparr>)
          (setBundle (getCurrentBundleId s) (b\<lparr>status := Error\<rparr>) s)) = Inr ()"
    by (simp add: recordFailedUpdate_def)
  with assms(1) show ?thesis by (simp add: rollback_stored)
qed

lemma data_failure_recorded: "data s \<noteq> None \<Longrightarrow> data (failure_recorded b s) \<noteq> None"
  by (auto simp: failure_recorded_def recordFailedUpdate_def data_save setters)

lemma getBundle_reset_to: "getBundle (reset_to t s) j = getBundle s j"
  by (simp add: reset_to_def bundle_save) (simp add: getBundle_def setters split: option.splits)

lemma failedUpdate_reset_to: "storage_getFailedUpdate (reset_to t s) = storage_getFailedUpdate s"
  by (simp add: reset_to_def storage_getFailedUpdate_def data_save)
     (simp add: setters split: option.splits)

lemma next_reset_to: "getNextBundleId (reset_to t s) = None"
  by (simp add: reset_to_def next_save next_setNext)

lemma current_reset_to: "data s \<noteq> None \<Longrightarrow> getCurrentBundleId (reset_to t s) = t"
  by (simp add: reset_to_def current_save) (auto simp add: getters setters split: option.splits)

lemma current_reset_to_uninitialised:
  "data s = None \<Longrightarrow> getCurrentBundleId (reset_to (rollback_target s) s) = rollback_target s"
  by (simp add: reset_to_def current_save rollback_target_def) (simp add: getters setters)

lemma rollback_resets:
  assumes "getBundle s (getCurrentBundleId s) = None \<or> next_write_ok s"
  shows "getCurrentBundleId (snd (rollback bm s)) = rollback_target s
     \<and> getNextBundleId (snd (rollback bm s)) = None"
proof (cases "getBundle s (getCurrentBundleId s)")
  case None
  then have e: "snd (rollback bm s) = reset_to (rollback_target s) s"
    by (rule rollback_not_stored)
  have "getCurrentBundleId (reset_to (rollback_target s) s) = rollback_target s"
  proof (cases "data s")
    case None
    then show ?thesis by (rule current_reset_to_uninitialised)
  next
    case (Some d)
    then show ?thesis by (simp add: current_reset_to)
  qed
  then show ?thesis by (simp add: e next_reset_to)
next
  case (Some b)
  with assms have e: "snd (rollback bm s) = reset_to (rollback_target s) (failure_recorded b s)"
    by (simp add: rollback_stored_write_ok)
  from Some have "data s \<noteq> None"
    by (auto simp: getBundle_def split: option.splits)
  then have "data (failure_recorded b s) \<noteq> None"
    by (rule data_failure_recorded)
  then show ?thesis by (simp add: e current_reset_to next_reset_to)
qed

text \<open>
  Claim C9. When the current bundle id resolves to a stored bundle \<open>b\<close>, then after
  \<open>rollback\<close> (with \<open>autoDeleteFailed\<close> or without, whatever the writes do) the bundle
  map still holds \<open>b\<close> under that id, with status \<open>Error\<close>: in the state in which the
  internal delete is attempted the bundle is still the current one, and \<open>deleteBundle\<close>
  rejects it there with \<open>CannotDeleteCurrent\<close> (with \<open>CannotDeleteBuiltin\<close> should the
  current id be the builtin one), leaving that state as it is.
\<close>

theorem rollback_keeps_failed_bundle:
  assumes "getBundle s (getCurrentBundleId s) = Some b"
  shows "getBundle (snd (rollback bm s)) (getCurrentBundleId s) = Some (b\<lparr>status := Error\<rparr>)
     \<and> getCurrentBundleId (failure_recorded b s) = getCurrentBundleId s
     \<and> deleteBundle (getCurrentBundleId s) (failure_recorded b s) =
         (Inl (if getCurrentBundleId s = BUILTIN_BUNDLE_ID then CannotDeleteBuiltin
               else CannotDeleteCurrent),
          failure_recorded b s)"
  using assms rollback_first_phase[OF assms] deleteBundle_current[of "failure_recorded b s"]
  by (simp add: rollback_stored getBundle_reset_to current_failure_recorded)

theorem rollback_keeps_failed_bundle_witness:
  "getBundle running (getCurrentBundleId running) = Some bundle_b1 \<and> autoDeleteFailed manager
   \<and> deleteBundle ''b1'' (failure_recorded bundle_b1 running) =
        (Inl CannotDeleteCurrent, failure_recorded bundle_b1 running)
   \<and> getBundle (snd (rollback manager running)) ''b1'' = Some (bundle_b1\<lparr>status := Error\<rparr>)
   \<and> map fst (bundles (getManifest (snd (rollback manager running)))) = [''b1'', ''b2'', ''b3'']"
  using rollback_keeps_failed_bundle[of running bundle_b1 manager]
  by (simp add: eval_defs rollback_def recordFailedUpdate_def getManifest_def Let_def
      failure_recorded_def)

text \<open>
  Claim C2. When the current bundle id resolves to a stored bundle \<open>b\<close>, after
  \<open>rollback\<close> the bundle map holds \<open>b\<close> with status \<open>Error\<close> and the failed-update
  record is that bundle. When the current id resolves to no stored bundle, or the write
  of the failed-update record succeeds, \<open>rollback\<close> goes on to set \<open>currentBundleId\<close>
  to \<open>lastSuccessfulBundleId\<close> if there is one and to the builtin id otherwise, and
  \<open>nextBundleId\<close> to \<open>None\<close>.
\<close>

theorem rollback_effect:
  "(\<forall>b. getBundle s (getCurrentBundleId s) = Some b \<longrightarrow>
       getBundle (snd (rollback bm s)) (getCurrentBundleId s) = Some (b\<lparr>status := Error\<rparr>) \<and>
       storage_getFailedUpdate (snd (rollback bm s)) = Some \<lparr>failed_bundle = b\<lparr>status := Error\<rparr>\<rparr>)
   \<and> (getBundle s (getCurrentBundleId s) = None \<or> next_write_ok s \<longrightarrow>
       getCurrentBundleId (snd (rollback bm s)) =
         (case getLastSuccessfulBundleId s of None \<Rightarrow> BUILTIN_BUNDLE_ID | Some t \<Rightarrow> t) \<and>
       getNextBundleId (snd (rollback bm s)) = None)"
proof (intro conjI allI impI)
  fix b
  assume b: "getBundle s (getCurrentBundleId s) = Some b"
  from rollback_first_phase[OF b]
  show "getBundle (snd (rollback bm s)) (getCurrentBundleId s) = Some (b\<lparr>status := Error\<rparr>)"
    by (simp add: rollback_stored[OF b] getBundle_reset_to)
  from rollback_first_phase[OF b]
  show "storage_getFailedUpdate (snd (rollback bm s)) = Some \<lparr>failed_bundle = b\<lparr>status := Error\<rparr>\<rparr>"
    by (simp add: rollback_stored[OF b] failedUpdate_reset_to)
next
  assume h: "getBundle s (getCurrentBundleId s) = None \<or> next_write_ok s"
  from rollback_resets[OF h]
  show "getCurrentBundleId (snd (rollback bm s)) =
         (case getLastSuccessfulBundleId s of None \<Rightarrow> BUILTIN_BUNDLE_ID | Some t \<Rightarrow> t)"
    and "getNextBundleId (snd (rollback bm s)) = None"
    by (simp_all add: rollback_target_def)
qed

theorem rollback_effect_witness:
  "getBundle running (getCurrentBundleId running) = Some bundle_b1 \<and> next_write_ok running
   \<and> getLastSuccessfulBundleId running = None
   \<and> getBundle (snd (rollback manager running)) ''b1'' = Some (bundle_b1\<lparr>status := Error\<rparr>)
   \<and> storage_getFailedUpdate (snd (rollback manager running)) =
       Some \<lparr>failed_bundle = bundle_b1\<lparr>status := Error\<rparr>\<rparr>
   \<and> getCurrentBundleId (snd (rollback manager running)) = BUILTIN_BUNDLE_ID
   \<and> getNextBundleId (snd (rollback manager running)) = None"
  using rollback_effect[of running manager]
  by (simp add: eval_defs rollback_def recordFailedUpdate_def Let_def)


text \<open>
  With no last successful bundle the rollback ends on the builtin bundle, whose status is
  \<open>Success\<close>.
\<close>

lemma rollback_to_builtin:
  assumes "getLastSuccessfulBundleId s = None"
    and "getBundle s (getCurrentBundleId s) = None \<or> next_write_ok s"
  shows "cur_bundle (current bm (snd (rollback bm s))) = getBuiltinBundle bm
     \<and> status (cur_bundle (current bm (snd (rollback bm s)))) = Success"
  using rollback_resets[OF assms(2), of bm] assms(1)
  by (simp add: current_def rollback_target_def getBuiltinBundle_def)

text \<open>
  Claim C1 does not hold of \<open>rollback\<close>. When the last successful bundle is the stored,
  non-builtin bundle \<open>b\<close> that is current when \<open>rollback\<close> is called, and the write of
  the failed-update record succeeds, \<open>rollback\<close> marks \<open>b\<close> as \<open>Error\<close> and then makes
  that same bundle current again: the bundle that \<open>current\<close> resolves afterwards has
  status \<open>Error\<close>. The instance below is reached from a fresh installation by
  \<open>set\<close> and the ready signal, with every write succeeding.
\<close>

theorem rollback_to_failed_bundle:
  assumes "getBundle s (getCurrentBundleId s) = Some b"
    and "getLastSuccessfulBundleId s = Some (getCurrentBundleId s)"
    and "getCurrentBundleId s \<noteq> BUILTIN_BUNDLE_ID"
    and "next_write_ok s"
  shows "getCurrentBundleId (snd (rollback bm s)) = getCurrentBundleId s
     \<and> cur_bundle (current bm (snd (rollback bm s))) = b\<lparr>status := Error\<rparr>
     \<and> status (cur_bundle (current bm (snd (rollback bm s)))) = Error"
proof -
  have t: "rollback_target s = getCurrentBundleId s"
    using assms(2) by (simp add: rollback_target_def)
  have c: "getCurrentBundleId (snd (rollback bm s)) = getCurrentBundleId s"
    using rollback_resets[of s bm] assms(4) t by simp
  have "snd (rollback bm s) = reset_to (getCurrentBundleId s) (failure_recorded b s)"
    using rollback_stored_write_ok[OF assms(1) assms(4)] t by simp
  then have "getBundle (snd (rollback bm s)) (getCurrentBundleId s) = Some (b\<lparr>status := Error\<rparr>)"
    using rollback_first_phase[OF assms(1)] by (simp add: getBundle_reset_to)
  with c assms(3) show ?thesis
    by (simp add: current_def Let_def)
qed

theorem rollback_to_failed_bundle_witness:
  "getBundle confirmed_b1 (getCurrentBundleId confirmed_b1) = Some bundle_b1
   \<and> getLastSuccessfulBundleId confirmed_b1 = Some (getCurrentBundleId confirmed_b1)
   \<and> getCurrentBundleId confirmed_b1 \<noteq> BUILTIN_BUNDLE_ID
   \<and> next_write_ok confirmed_b1
   \<and> fst (rollback manager confirmed_b1) = Inr (bundle_b1\<lparr>status := Error\<rparr>)
   \<and> getCurrentBundleId (snd (rollback manager confirmed_b1)) = ''b1''
   \<and> status (cur_bundle (current manager (snd (rollback manager confirmed_b1)))) = Error
   \<and> saved (snd (rollback manager confirmed_b1)) = data (snd (rollback manager confirmed_b1))"
  using rollback_to_failed_bundle[of confirmed_b1 bundle_b1 manager]
  by (simp add: confirmed_b1_def eval_defs rollback_def recordFailedUpdate_def Let_def
      set_bundle_def markBundleSuccessful_def current_def)


section \<open>getFailedUpdate\<close>

text \<open>
  Claim C7 does not hold of \<open>getFailedUpdate\<close>. It returns the stored record and clears
  it in memory, and performs no write: when a record is stored and the file agrees with
  the document in memory before the call, the file still holds the record after it and
  no longer agrees with the document in memory.
\<close>

theorem getFailedUpdate_not_persisted:
  assumes "storage_getFailedUpdate s = Some u" and "saved s = data s"
  shows "fst (getFailedUpdate s) = Inr (Some u)
     \<and> storage_getFailedUpdate (snd (getFailedUpdate s)) = None
     \<and> saved (snd (getFailedUpdate s)) = saved s
     \<and> writes (snd (getFailedUpdate s)) = writes s
     \<and> saved (snd (getFailedUpdate s)) \<noteq> data (snd (getFailedUpdate s))"
proof -
  from assms(1) obtain d where d: "data s = Some d" and f: "failedUpdate (manifest d) = Some u"
    by (auto simp: storage_getFailedUpdate_def split: option.splits)
  have "d \<noteq> d\<lparr>manifest := (manifest d)\<lparr>failedUpdate := None\<rparr>\<rparr>"
  proof
    assume "d = d\<lparr>manifest := (manifest d)\<lparr>failedUpdate := None\<rparr>\<rparr>"
    then have "failedUpdate (manifest d) =
        failedUpdate (manifest (d\<lparr>manifest := (manifest d)\<lparr>failedUpdate := None\<rparr>\<rparr>))"
      by simp
    with f show False by simp
  qed
  with assms d f show ?thesis
    by (simp add: getFailedUpdate_def clearFailedUpdate_def Let_def setters storage_getFailedUpdate_def)
qed

theorem getFailedUpdate_not_persisted_witness:
  "storage_getFailedUpdate rolled_back = Some \<lparr>failed_bundle = bundle_b1\<lparr>status := Error\<rparr>\<rparr>
   \<and> saved rolled_back = data rolled_back
   \<and> fst (getFailedUpdate rolled_back) = Inr (Some \<lparr>failed_bundle = bundle_b1\<lparr>status := Error\<rparr>\<rparr>)
   \<and> map_option (failedUpdate \<circ> manifest) (data (snd (getFailedUpdate rolled_back))) = Some None
   \<and> map_option (failedUpdate \<circ> manifest) (saved (snd (getFailedUpdate rolled_back))) =
        Some (Some \<lparr>failed_bundle = bundle_b1\<lparr>status := Error\<rparr>\<rparr>)"
  using getFailedUpdate_not_persisted[of rolled_back "\<lparr>failed_bundle = bundle_b1\<lparr>status := Error\<rparr>\<rparr>"]
  by (simp add: rolled_back_def eval_defs rollback_def recordFailedUpdate_def Let_def
      getFailedUpdate_def clearFailedUpdate_def)

text \<open>Its sibling \<open>recordFailedUpdate\<close> does write the record it stores.\<close>

lemma recordFailedUpdate_persisted:
  assumes "data s \<noteq> None" and "next_write_ok s"
  shows "fst (recordFailedUpdate b s) = Inr ()
     \<and> storage_getFailedUpdate (snd (recordFailedUpdate b s)) = Some \<lparr>failed_bundle = b\<rparr>
     \<and> saved (snd (recordFailedUpdate b s)) = data (snd (recordFailedUpdate b s))"
proof -
  from assms(1) obtain d where d: "data s = Some d" by auto
  then obtain d' where d': "data (setFailedUpdate (Some \<lparr>failed_bundle = b\<rparr>) s) = Some d'"
    by (simp add: setters)
  from assms(2) have "next_write_ok (setFailedUpdate (Some \<lparr>failed_bundle = b\<rparr>) s)"
    by (simp add: setFailedUpdate_def next_write_ok_update_manifest)
  from save_ok[OF this d'] d d' show ?thesis
    by (simp add: recordFailedUpdate_def storage_getFailedUpdate_def)
      (auto simp: setters)
qed


section \<open>The date condition\<close>

text \<open>
  Claim C6 does not hold of \<open>isDateConditionSatisfied\<close>. For a non-empty value that is
  not a date the time value is \<^verbatim>\<open>NaN\<close>, the comparison \<^verbatim>\<open>Date.now() >= NaN\<close> is false
  and nothing is thrown: the condition is reported as not satisfied.
\<close>

theorem unparsable_date_not_satisfied:
  "v \<noteq> [] \<Longrightarrow> Date_getTime v = NaN \<Longrightarrow> \<not> isDateConditionSatisfied Date_getTime now (Some v)"
  by (simp add: isDateConditionSatisfied_def js_ge_def)

theorem unparsable_date_not_satisfied_witness:
  "''not a date'' \<noteq> [] \<and> (\<lambda>_. NaN) ''not a date'' = NaN
   \<and> \<not> isDateConditionSatisfied (\<lambda>_. NaN) 1700000000000 (Some ''not a date'')"
  using unparsable_date_not_satisfied[of "''not a date''" "\<lambda>_. NaN" 1700000000000]
  by simp

text \<open>The rest of the rule is as the specification has it.\<close>

lemma date_condition_absent:
  "isDateConditionSatisfied Date_getTime now None \<and>
   isDateConditionSatisfied Date_getTime now (Some [])"
  by (simp add: isDateConditionSatisfied_def)

lemma date_condition_parsed:
  "v \<noteq> [] \<Longrightarrow> Date_getTime v = Num t \<Longrightarrow>
   isDateConditionSatisfied Date_getTime now (Some v) \<longleftrightarrow> t \<le> now"
  by (simp add: isDateConditionSatisfied_def js_ge_def)


section \<open>Session keys\<close>

lemma length_split: "length (split c s) = Suc (length (filter (\<lambda>x. x = c) s))"
  by (induction s) (auto split: list.splits)

text \<open>
  Claim C8. Whatever the input string, the decoder and the decryption do,
  \<open>parseSessionKey\<close> returns (it never throws); it returns \<^verbatim>\<open>null\<close> when the number of
  colon-separated fields is not two, and when no public key is configured; a recovered
  IV and key come only from a two-field input with a configured key.
\<close>

theorem parseSessionKey_no_verdict:
  "(\<exists>r. parseSessionKey from_base64 publicDecrypt cm sessionKey = Inr r)
   \<and> (length (split CHR '':'' sessionKey) \<noteq> 2 \<longrightarrow>
        parseSessionKey from_base64 publicDecrypt cm sessionKey = Inr None)
   \<and> (publicKey cm = None \<or> publicKey cm = Some [] \<longrightarrow>
        parseSessionKey from_base64 publicDecrypt cm sessionKey = Inr None)
   \<and> (\<forall>k. parseSessionKey from_base64 publicDecrypt cm sessionKey = Inr (Some k) \<longrightarrow>
        length (split CHR '':'' sessionKey) = 2 \<and>
        (\<exists>key. publicKey cm = Some key \<and> key \<noteq> []))"
  by (auto simp: parseSessionKey_def try_catch_def split: option.splits list.splits sum.splits)

theorem parseSessionKey_no_verdict_witness:
  "parseSessionKey (map of_char) (\<lambda>_ c. Inr c) crypto ''aXY=:a2V5'' =
       Inr (Some \<lparr>iv = map of_char ''aXY='', aesKey = map of_char ''a2V5''\<rparr>)
   \<and> length (split CHR '':'' ''aXY=:a2V5'') = 2 \<and> length (split CHR '':'' ''a:b:c'') = 3
   \<and> parseSessionKey (map of_char) (\<lambda>_ c. Inr c) crypto ''a:b:c'' = Inr None
   \<and> parseSessionKey (map of_char) (\<lambda>_ c. Inl DecryptFailed) crypto ''aXY=:a2V5'' = Inr None
   \<and> parseSessionKey (map of_char) (\<lambda>_ c. Inr c) \<lparr>publicKey = None\<rparr> ''aXY=:a2V5'' = Inr None"
  using parseSessionKey_no_verdict[of "map of_char" "\<lambda>_ c. Inr c" crypto "''aXY=:a2V5''"]
    parseSessionKey_no_verdict[of "map of_char" "\<lambda>_ c. Inr c" crypto "''a:b:c''"]
  by (simp add: parseSessionKey_def try_catch_def crypto_def)

end
